theory Spec2Isabelle
  imports Complex_Main
begin

section \<open>Numbers, points and flattened polylines\<close>

text \<open>
  A JavaScript number is idealised as a real number or \<open>NaN\<close>: rounding, the two
  infinities and the sign of zero are not represented, \<open>NaN\<close> is, because the
  program tests for it (\<open>isNaN\<close> in \<open>attrs\<close>) and because every
  comparison with it is false. Arithmetic propagates \<open>NaN\<close>. Where the rounding
  decides what the program does, in the sign of the winding sum, the operations rounded
  to binary64 are given as well (\<open>dadd\<close>, \<open>dsub\<close>, \<open>dmul\<close> below).
\<close>

datatype jsnum = Num real | NaN

fun jadd :: "jsnum \<Rightarrow> jsnum \<Rightarrow> jsnum" where
  "jadd (Num a) (Num b) = Num (a + b)"
| "jadd _ _ = NaN"

fun jsub :: "jsnum \<Rightarrow> jsnum \<Rightarrow> jsnum" where
  "jsub (Num a) (Num b) = Num (a - b)"
| "jsub _ _ = NaN"

fun jmul :: "jsnum \<Rightarrow> jsnum \<Rightarrow> jsnum" where
  "jmul (Num a) (Num b) = Num (a * b)"
| "jmul _ _ = NaN"

fun jneg :: "jsnum \<Rightarrow> jsnum" where
  "jneg (Num a) = Num (- a)"
| "jneg NaN = NaN"

fun jlt :: "jsnum \<Rightarrow> jsnum \<Rightarrow> bool" where
  "jlt (Num a) (Num b) = (a < b)"
| "jlt _ _ = False"

fun jgt :: "jsnum \<Rightarrow> jsnum \<Rightarrow> bool" where
  "jgt (Num a) (Num b) = (a > b)"
| "jgt _ _ = False"

fun isNaN :: "jsnum \<Rightarrow> bool" where
  "isNaN NaN = True"
| "isNaN (Num _) = False"

text \<open>A point is a two-element array \<open>[x, y]\<close>.\<close>

type_synonym pt = "jsnum \<times> jsnum"

text \<open>
  One polyline returned by \<open>pathDataToPolys\<close> (package svg-path-to-polygons): an
  array of points carrying a \<open>closed\<close> flag.
\<close>

record poly =
  points :: "pt list"
  closed :: bool

text \<open>The 2x3 matrix of package vmath (\<open>mat23\<close>), fields \<open>m00 .. m05\<close>.\<close>

record mat23 =
  m00 :: jsnum
  m01 :: jsnum
  m02 :: jsnum
  m03 :: jsnum
  m04 :: jsnum
  m05 :: jsnum

text \<open>
  Every exit of the program that is not a normal return: \<open>process.exit(n)\<close>, a
  \<open>TypeError\<close> raised by the runtime (a property read on \<open>undefined\<close>, a call
  of something that is not a function), a value thrown by a library, and
  \<open>OutsideModel\<close> for the inputs on which the program continues with values this
  embedding does not represent (string-valued coordinates, object keys that JavaScript
  enumerates out of insertion order or inherits from \<open>Object.prototype\<close>).
\<close>

datatype error = Exit nat | TypeError | Thrown string | OutsideModel

datatype geometry = Point pt | LineString "pt list" | Polygon "pt list list"

text \<open>
  A geometry object \<open>{type, coordinates}\<close>. \<open>debugId\<close> is the property that
  \<open>addDebugId\<close> stores on the \<open>coordinates\<close> array itself (\<open>None\<close> is
  \<open>undefined\<close>).
\<close>

record geo =
  geometry :: geometry
  debugId :: "string option"

section \<open>Winding\<close>

text \<open>
  \<^verbatim>\<open>
  function windingIsCorrect(pts, shouldBeClockwise) {
    var sum = 0;
    for (var i = 0; i < pts.length; ++i) {
      var p0 = pts[(i || pts.length) - 1];
      sum += (pts[i][0] - p0[0]) * (pts[i][1] + p0[1]);
    }
    return shouldBeClockwise ? sum < 0 : sum > 0;
  }
  \<close>
  The loop, from index \<open>i\<close> with the running \<open>sum\<close> (here \<open>acc\<close>). Both call sites pass the
  ring index (a number) as \<open>shouldBeClockwise\<close>, which is truthy exactly when it
  is not zero. The arithmetic here is exact; \<open>windingLoop64\<close> in the next section is
  the same loop with every operation rounded as the program rounds it.
\<close>

function windingLoop :: "pt list \<Rightarrow> nat \<Rightarrow> jsnum \<Rightarrow> jsnum" where
  "windingLoop pts i acc =
     (if i < length pts then
        (let p0 = pts ! ((if i = 0 then length pts else i) - 1) in
         windingLoop pts (i + 1)
           (jadd acc (jmul (jsub (fst (pts ! i)) (fst p0)) (jadd (snd (pts ! i)) (snd p0)))))
      else acc)"
  by pat_completeness auto
termination
  by (relation "measure (\<lambda>(pts, i, acc). length pts - i)") auto

declare windingLoop.simps [simp del]

definition windingSum :: "pt list \<Rightarrow> jsnum" where
  "windingSum pts = windingLoop pts 0 (Num 0)"

definition windingIsCorrect :: "pt list \<Rightarrow> nat \<Rightarrow> bool" where
  "windingIsCorrect pts shouldBeClockwise =
     (if shouldBeClockwise \<noteq> 0 then jlt (windingSum pts) (Num 0)
      else jgt (windingSum pts) (Num 0))"


section \<open>Winding in binary64\<close>

text \<open>
  The program's numbers are IEEE binary64, and the sign of a shoelace sum can depend on
  the rounding of its partial sums. \<open>binary64 x\<close> is the double nearest to the real
  \<open>x\<close>, ties going to the even significand: 53 significant bits, the quantum being
  \<open>2\<^sup>e\<^sup>-\<^sup>5\<^sup>2\<close> for \<open>2\<^sup>e \<le> |x| < 2\<^sup>e\<^sup>+\<^sup>1\<close> and \<open>2\<^sup>-\<^sup>1\<^sup>0\<^sup>7\<^sup>4\<close> below
  \<open>2\<^sup>-\<^sup>1\<^sup>0\<^sup>2\<^sup>2\<close>. The result is \<open>None\<close> when the rounded value is beyond
  the finite doubles: the infinities are not represented, and neither is the sign of
  zero, which no comparison sees.
\<close>

definition rne :: "real \<Rightarrow> int" where
  "rne y =
     (let f = \<lfloor>y\<rfloor> in
      if y - of_int f < 1 / 2 then f
      else if 1 / 2 < y - of_int f then f + 1
      else if even f then f else f + 1)"












section \<open>The runtime and the libraries\<close>

text \<open>
  What the program calls and this repository does not define is a parameter of the
  embedding:
  \<^item> \<open>ToNumber\<close>: the conversion of a string to a number done by \<open>s * 1\<close>;
  \<^item> \<open>NumberToString\<close>: the conversion of a number to a string done by string
    concatenation, template literals and \<open>join\<close>;
  \<^item> \<open>parseFloat\<close>: the global function of that name;
  \<^item> \<open>pathDataToPolys\<close>: the flattener of package svg-path-to-polygons, at the
    module's fixed tolerance \<open>svgTolerance = 1\<close>;
  \<^item> \<open>pathStart\<close>: the result of \<open>String.prototype.match\<close> for the regular
    expression literal in \<open>addPathToLayer\<close> (\<open>None\<close> is \<open>null\<close>,
    otherwise the matched text).
\<close>

record env =
  ToNumber :: "string \<Rightarrow> jsnum"
  NumberToString :: "jsnum \<Rightarrow> string"
  parseFloat :: "string \<Rightarrow> jsnum"
  pathDataToPolys :: "string \<Rightarrow> poly list"
  pathStart :: "string \<Rightarrow> string option"

text \<open>
  Modelled from the spec: \<open>vec2.transformMat23\<close> of package vmath, which is not
  part of the sources. The spec calls it the standard affine application of the six
  coefficients of an SVG \<open>matrix(a,b,c,d,e,f)\<close>, which \<open>combineTransform\<close>
  stores in this order in \<open>m00 .. m05\<close>.
\<close>

definition transformMat23 :: "pt \<Rightarrow> mat23 \<Rightarrow> pt" where
  "transformMat23 a m =
     (jadd (jadd (jmul (m00 m) (fst a)) (jmul (m02 m) (snd a))) (m04 m),
      jadd (jadd (jmul (m01 m) (fst a)) (jmul (m03 m) (snd a))) (m05 m))"

text \<open>
  Modelled from the spec: \<open>mat23.multiply(out, a, b)\<close> of package vmath, which is
  not part of the sources. The spec's \<open>compose(outer, inner)\<close>: the transform that
  applies \<open>inner\<close> and then \<open>outer\<close>. This is the value written to \<open>out\<close>.
\<close>

definition mat23_multiply :: "mat23 \<Rightarrow> mat23 \<Rightarrow> mat23" where
  "mat23_multiply a b =
     \<lparr> m00 = jadd (jmul (m00 a) (m00 b)) (jmul (m02 a) (m01 b)),
       m01 = jadd (jmul (m01 a) (m00 b)) (jmul (m03 a) (m01 b)),
       m02 = jadd (jmul (m00 a) (m02 b)) (jmul (m02 a) (m03 b)),
       m03 = jadd (jmul (m01 a) (m02 b)) (jmul (m03 a) (m03 b)),
       m04 = jadd (jadd (jmul (m00 a) (m04 b)) (jmul (m02 a) (m05 b))) (m04 a),
       m05 = jadd (jadd (jmul (m01 a) (m04 b)) (jmul (m03 a) (m05 b))) (m05 a) \<rparr>"

section \<open>Elements and attributes\<close>

text \<open>
  A node of the tree that xml2js builds with \<open>explicitChildren\<close>,
  \<open>preserveChildrenOrder\<close> and \<open>xmlns\<close>: \<open>el['#name']\<close>, \<open>el['$ns']\<close>
  (its \<open>uri\<close> and \<open>local\<close>), \<open>el.$\<close> (attribute name to the attribute's
  \<open>value\<close>) and \<open>el.$$\<close> (the children in document order). The last three are
  \<open>undefined\<close> (\<open>None\<close>) when the node has none.
\<close>

datatype element =
  Element (elName: string) (elNs: "(string \<times> string) option")
          (elAttrs: "(string \<times> string) list option") (elChildren: "element list option")

text \<open>The value \<open>attrs\<close> leaves under one name: a string, or a number.\<close>

datatype attrval = AStr string | ANum jsnum

text \<open>
  \<^verbatim>\<open>
  function attrs(el, ...names) {
    const o = {};
    names.forEach(n => {
      o[n] = el.$[n] ? (isNaN(el.$[n].value * 1) ? el.$[n].value : (el.$[n].value * 1) ) : 0
    });
    return o;
  }
  \<close>
  for one name; \<open>el.$[n]\<close> on an element without attributes is a \<open>TypeError\<close>.
\<close>

definition attrs :: "env \<Rightarrow> element \<Rightarrow> string \<Rightarrow> error + attrval" where
  "attrs env el n =
     (case elAttrs el of
        None \<Rightarrow> Inl TypeError
      | Some as \<Rightarrow>
          (case map_of as n of
             None \<Rightarrow> Inr (ANum (Num 0))
           | Some v \<Rightarrow> Inr (if isNaN (ToNumber env v) then AStr v else ANum (ToNumber env v))))"

text \<open>Truthiness of such a value: a non-empty string, a number other than zero and NaN.\<close>

fun truthy :: "attrval \<Rightarrow> bool" where
  "truthy (AStr s) = (s \<noteq> [])"
| "truthy (ANum (Num r)) = (r \<noteq> 0)"
| "truthy (ANum NaN) = False"

section \<open>Paths\<close>

text \<open>
  \<^verbatim>\<open>
  function coords(coords, xform) {
    if (xform) {
      const pt = vec2.create();
      coords.forEach(a => {
        pt.x = a[0]; pt.y = a[1];
        vec2.transformMat23(pt, pt, xform);
        a[0] = pt.x; a[1] = pt.y;
      });
    }
    return coords;
  }
  \<close>
\<close>

definition coords :: "pt list \<Rightarrow> mat23 option \<Rightarrow> pt list" where
  "coords cs xform =
     (case xform of None \<Rightarrow> cs | Some m \<Rightarrow> map (\<lambda>a. transformMat23 a m) cs)"

text \<open>
  The loop of \<open>addPathData\<close> over the rings, from the last to the first:
  \<^verbatim>\<open>
  for (var i = geo.coordinates.length; i--;)
    if (!windingIsCorrect(geo.coordinates[i], i))
      geo.coordinates[i] = geo.coordinates[i].reverse();
  \<close>
  The second argument is the value of \<open>i\<close> before the test \<open>i--\<close>.
\<close>

fun fixWinding :: "pt list list \<Rightarrow> nat \<Rightarrow> pt list list" where
  "fixWinding cs 0 = cs"
| "fixWinding cs (Suc i) =
     fixWinding (if \<not> windingIsCorrect (cs ! i) i then cs[i := rev (cs ! i)] else cs) i"

text \<open>
  \<^verbatim>\<open>
  function addPathData(layer, xform, pathData, checkWinding) {
    const polys = pathDataToPolys(pathData, { tolerance: svgTolerance });
    const geo = {
      type: (polys.length > 1 || polys[0].closed) ? 'Polygon' : 'LineString',
      coordinates: polys.map(poly => coords(poly, xform))
    };
    if (geo.type === 'LineString') {
      geo.coordinates = geo.coordinates[0];
      if (geo.coordinates.length === 1) {
        geo.type = 'Point';
        geo.coordinates = geo.coordinates[0];
      }
    } else if (checkWinding)
      for ...
    layer.push(geo);
    return geo;
  }
  \<close>
  With no polyline at all, \<open>polys[0].closed\<close> reads a property of
  \<open>undefined\<close>. The result is the layer after the push; the geometry returned is
  its last element.
\<close>

definition addPathData ::
  "env \<Rightarrow> geo list \<Rightarrow> mat23 option \<Rightarrow> string \<Rightarrow> bool \<Rightarrow> error + geo list" where
  "addPathData env layer xform pathData checkWinding =
     (let polys = pathDataToPolys env pathData in
      case polys of
        [] \<Rightarrow> Inl TypeError
      | p0 # _ \<Rightarrow>
          (let cs = map (\<lambda>poly. coords (points poly) xform) polys;
               g = (if length polys > 1 \<or> closed p0 then
                      Polygon (if checkWinding then fixWinding cs (length cs) else cs)
                    else
                      (let line = cs ! 0 in
                       if length line = 1 then Point (line ! 0) else LineString line))
           in Inr (layer @ [\<lparr> geometry = g, debugId = None \<rparr>])))"

text \<open>
  \<^verbatim>\<open>
  function addDebugId(geo, el, fallback) {
    geo.coordinates.debugId = (el.$ && el.$.id) ? `#${el.$.id.value}` : fallback;
  }
  \<close>
\<close>

definition debugLabel :: "element \<Rightarrow> string \<Rightarrow> string" where
  "debugLabel el fallback =
     (case elAttrs el of
        None \<Rightarrow> fallback
      | Some as \<Rightarrow> (case map_of as ''id'' of None \<Rightarrow> fallback | Some v \<Rightarrow> ''#'' @ v))"

definition addDebugId :: "geo \<Rightarrow> element \<Rightarrow> string \<Rightarrow> geo" where
  "addDebugId g el fallback = g \<lparr> debugId := Some (debugLabel el fallback) \<rparr>"

text \<open>
  The callers label the geometry they have just pushed, the same object as the last
  element of the layer.
\<close>

definition labelLast :: "geo list \<Rightarrow> element \<Rightarrow> string \<Rightarrow> geo list" where
  "labelLast layer el fallback =
     (if layer = [] then layer else butlast layer @ [addDebugId (last layer) el fallback])"


text \<open>
  \<^verbatim>\<open>
  function addPathToLayer(el, layer, xform) {
    const c = attrs(el, 'd');
    if (c.d) {
      const geo = addPathData(layer, xform, c.d, true);
      const pathStart = c.d.match(/^.+?\d.*?[\s,-].*?\d.*?(?=[\s,a-z-]|$)/i);
      addDebugId(geo, el, `path @ ${pathStart && pathStart[0]}`)
    }
  }
  \<close>
  A \<open>d\<close> attribute that reads as a number other than zero reaches the flattener
  as a number, which is outside this embedding.
\<close>

definition addPathToLayer ::
  "env \<Rightarrow> element \<Rightarrow> geo list \<Rightarrow> mat23 option \<Rightarrow> error + geo list" where
  "addPathToLayer env el layer xform =
     (case attrs env el ''d'' of
        Inl e \<Rightarrow> Inl e
      | Inr d \<Rightarrow>
          if truthy d then
            (case d of
               ANum _ \<Rightarrow> Inl OutsideModel
             | AStr pd \<Rightarrow>
                 (case addPathData env layer xform pd True of
                    Inl e \<Rightarrow> Inl e
                  | Inr layer' \<Rightarrow>
                      Inr (labelLast layer' el
                             (''path @ '' @ (case pathStart env pd of
                                               None \<Rightarrow> ''null'' | Some m \<Rightarrow> m)))))
          else Inr layer)"

section \<open>Polygons and polylines\<close>

text \<open>
  \<open>s.split(/[\s,]+/)\<close>: the pieces of \<open>s\<close> between maximal runs of white space
  and commas; a run at either end leaves an empty piece there, and a string without any
  run is its own single piece. A character is a code unit below 256, and the white space
  is what \<open>\s\<close> matches among these: tab, line feed, vertical tab, form feed,
  carriage return, space and the no-break space U+00A0. The flag says that the character
  before was a separator.
\<close>

definition isSep :: "char \<Rightarrow> bool" where
  "isSep c = (c \<in> set [CHR '' '', CHR '','', CHR 0x09, CHR 0x0A, CHR 0x0B, CHR 0x0C, CHR 0x0D,
                       CHR 0xA0])"

fun splitAux :: "bool \<Rightarrow> string \<Rightarrow> string \<Rightarrow> string list" where
  "splitAux inSep cur [] = [cur]"
| "splitAux inSep cur (c # cs) =
     (if isSep c then (if inSep then splitAux True cur cs else cur # splitAux True [] cs)
      else splitAux False (cur @ [c]) cs)"

definition splitSep :: "string \<Rightarrow> string list" where
  "splitSep s = splitAux False [] s"

text \<open>
  \<^verbatim>\<open>
  const pts = [];
  for (var i = 0; i < nums.length; i += 2)
    if (nums[i] && nums[i + 1]) pts.push([nums[i] * 1, nums[i + 1] * 1]);
  \<close>
  A piece is truthy when it is not empty; \<open>nums[i + 1]\<close> past the end is
  \<open>undefined\<close>.
\<close>

fun parsePoints :: "env \<Rightarrow> string list \<Rightarrow> pt list" where
  "parsePoints env (a # b # rest) =
     (if a \<noteq> [] \<and> b \<noteq> [] then [(ToNumber env a, ToNumber env b)] else [])
       @ parsePoints env rest"
| "parsePoints env _ = []"

text \<open>An array of two numbers inside a template literal: \<open>x,y\<close>.\<close>

definition showPt :: "env \<Rightarrow> pt \<Rightarrow> string" where
  "showPt env a = NumberToString env (fst a) @ '','' @ NumberToString env (snd a)"

text \<open>
  \<^verbatim>\<open>
  function addPolygonToLayer(el, layer, xform) {
    const c = attrs(el, 'points');
    if (!c.points) return;
    const nums = c.points.split(/[\s,]+/);
    const pts = [];
    for ...
    pts.push(pts[0].concat());
    const geo = { type: 'Polygon', coordinates: [coords(pts, xform)] };
    if (!windingIsCorrect(geo.coordinates[0], 0)) {
      geo.coordinates[0] = geo.coordinates[0].reverse();
    }
    addDebugId(geo, el, `polygon @ ${pts[0]},${pts[1]}`);
    layer.push(geo);
  }
  \<close>
  A number has no \<open>split\<close>, and \<open>pts[0]\<close> of an empty array is
  \<open>undefined\<close>: both calls are a \<open>TypeError\<close>. \<open>coords\<close> and
  \<open>reverse\<close> work in place, so the \<open>pts\<close> of the label is the ring as
  stored; it has two points at least.
\<close>

definition addPolygonToLayer ::
  "env \<Rightarrow> element \<Rightarrow> geo list \<Rightarrow> mat23 option \<Rightarrow> error + geo list" where
  "addPolygonToLayer env el layer xform =
     (case attrs env el ''points'' of
        Inl e \<Rightarrow> Inl e
      | Inr p \<Rightarrow>
          if \<not> truthy p then Inr layer
          else
            (case p of
               ANum _ \<Rightarrow> Inl TypeError
             | AStr s \<Rightarrow>
                 (let pts = parsePoints env (splitSep s) in
                  if pts = [] then Inl TypeError
                  else
                    (let ring = coords (pts @ [pts ! 0]) xform;
                         ring' = (if \<not> windingIsCorrect ring 0 then rev ring else ring);
                         g = addDebugId \<lparr> geometry = Polygon [ring'], debugId = None \<rparr> el
                               (''polygon @ '' @ showPt env (ring' ! 0) @ '','' @ showPt env (ring' ! 1))
                     in Inr (layer @ [g])))))"

text \<open>
  \<^verbatim>\<open>
  function addPolylineToLayer(el, layer, xform) {
    const c = attrs(el, 'points');
    if (!c.points) return;
    const nums = c.points.split(/[\s,]+/);
    const pts = [];
    for ...
    pts.push(pts[0].concat());
    const geo = { type: 'LineString', coordinates: coords(pts, xform) };
    addDebugId(geo, el, `polyline @ ${pts[0]},${pts[1]}`);
    layer.push(geo);
  }
  \<close>
\<close>

definition addPolylineToLayer ::
  "env \<Rightarrow> element \<Rightarrow> geo list \<Rightarrow> mat23 option \<Rightarrow> error + geo list" where
  "addPolylineToLayer env el layer xform =
     (case attrs env el ''points'' of
        Inl e \<Rightarrow> Inl e
      | Inr p \<Rightarrow>
          if \<not> truthy p then Inr layer
          else
            (case p of
               ANum _ \<Rightarrow> Inl TypeError
             | AStr s \<Rightarrow>
                 (let pts = parsePoints env (splitSep s) in
                  if pts = [] then Inl TypeError
                  else
                    (let line = coords (pts @ [pts ! 0]) xform;
                         g = addDebugId \<lparr> geometry = LineString line, debugId = None \<rparr> el
                               (''polyline @ '' @ showPt env (line ! 0) @ '','' @ showPt env (line ! 1))
                     in Inr (layer @ [g])))))"


section \<open>Rectangles, lines, circles, ellipses\<close>

text \<open>
  In these three converters an attribute that does not read as a number stays a string,
  and \<open>+\<close> then concatenates: the coordinates become strings, which this embedding
  does not represent.
\<close>

fun asNum :: "attrval \<Rightarrow> error + jsnum" where
  "asNum (ANum n) = Inr n"
| "asNum (AStr _) = Inl OutsideModel"

definition numAttr :: "env \<Rightarrow> element \<Rightarrow> string \<Rightarrow> error + jsnum" where
  "numAttr env el n = (case attrs env el n of Inl e \<Rightarrow> Inl e | Inr v \<Rightarrow> asNum v)"

text \<open>
  \<^verbatim>\<open>
  function addRectToLayer(el, layer, xform) {
    const c = attrs(el, 'x', 'y', 'width', 'height');
    const geo = {
      type: 'Polygon',
      coordinates: [
        coords([[c.x, c.y], [c.x, c.y + c.height], [c.x + c.width, c.y + c.height],
                [c.x + c.width, c.y], [c.x, c.y]], xform)
      ]
    };
    addDebugId(geo, el, `rect @ ${c.x},${c.y}`);
    layer.push(geo);
  }
  \<close>
\<close>

definition addRectToLayer ::
  "env \<Rightarrow> element \<Rightarrow> geo list \<Rightarrow> mat23 option \<Rightarrow> error + geo list" where
  "addRectToLayer env el layer xform =
     (case (numAttr env el ''x'', numAttr env el ''y'',
            numAttr env el ''width'', numAttr env el ''height'') of
        (Inr x, Inr y, Inr width, Inr height) \<Rightarrow>
          (let ring = coords [(x, y), (x, jadd y height), (jadd x width, jadd y height),
                              (jadd x width, y), (x, y)] xform;
               g = addDebugId \<lparr> geometry = Polygon [ring], debugId = None \<rparr> el
                     (''rect @ '' @ showPt env (x, y))
           in Inr (layer @ [g]))
      | (Inl e, _, _, _) \<Rightarrow> Inl e
      | (_, Inl e, _, _) \<Rightarrow> Inl e
      | (_, _, Inl e, _) \<Rightarrow> Inl e
      | (_, _, _, Inl e) \<Rightarrow> Inl e)"

text \<open>
  \<^verbatim>\<open>
  function addLineToLayer(el, layer, xform) {
    const c = attrs(el, 'x1', 'y1', 'x2', 'y2');
    const geo = { type: 'LineString', coordinates: coords([[c.x1, c.y1], [c.x2, c.y2]], xform) };
    addDebugId(geo, el, `line @ ${c.x1},${c.y1}`);
    layer.push(geo);
  }
  \<close>
\<close>

definition addLineToLayer ::
  "env \<Rightarrow> element \<Rightarrow> geo list \<Rightarrow> mat23 option \<Rightarrow> error + geo list" where
  "addLineToLayer env el layer xform =
     (case (numAttr env el ''x1'', numAttr env el ''y1'',
            numAttr env el ''x2'', numAttr env el ''y2'') of
        (Inr x1, Inr y1, Inr x2, Inr y2) \<Rightarrow>
          (let line = coords [(x1, y1), (x2, y2)] xform;
               g = addDebugId \<lparr> geometry = LineString line, debugId = None \<rparr> el
                     (''line @ '' @ showPt env (x1, y1))
           in Inr (layer @ [g]))
      | (Inl e, _, _, _) \<Rightarrow> Inl e
      | (_, Inl e, _, _) \<Rightarrow> Inl e
      | (_, _, Inl e, _) \<Rightarrow> Inl e
      | (_, _, _, Inl e) \<Rightarrow> Inl e)"

text \<open>\<open>array.join(' ')\<close> on an array of strings.\<close>

fun joinSp :: "string list \<Rightarrow> string" where
  "joinSp [] = []"
| "joinSp [x] = x"
| "joinSp (x # y # ys) = x @ '' '' @ joinSp (y # ys)"

text \<open>
  \<^verbatim>\<open>
  function addCircleToLayer(el, layer, xform) {
    const c = attrs(el, 'cx', 'cy', 'r');
    if (!c.r) return;
    const s = 0.55191502449 * c.r, m = c.r - s;
    const geo = addPathData(
      layer, xform,
      ['M', c.cx, c.cy + c.r,
        'c', s, 0, c.r, -m, c.r, -c.r,
        's', -m, -c.r, -c.r, -c.r,
        's', -c.r, m, -c.r, c.r,
        's', m, c.r, c.r, c.r, 'z'].join(' ')
    );
    addDebugId(geo, el, `circle @ ${c.cx},${c.cy}`);
  }
  \<close>
  \<open>addPathData\<close> is called without its fourth argument, so \<open>checkWinding\<close> is
  \<open>undefined\<close>, which is falsy.
\<close>

definition addCircleToLayer ::
  "env \<Rightarrow> element \<Rightarrow> geo list \<Rightarrow> mat23 option \<Rightarrow> error + geo list" where
  "addCircleToLayer env el layer xform =
     (case (attrs env el ''cx'', attrs env el ''cy'', attrs env el ''r'') of
        (Inr vcx, Inr vcy, Inr vr) \<Rightarrow>
          if \<not> truthy vr then Inr layer
          else
            (case (asNum vcx, asNum vcy, asNum vr) of
               (Inr cx, Inr cy, Inr r) \<Rightarrow>
                 (let s = jmul (Num 0.55191502449) r;
                      m = jsub r s;
                      n = NumberToString env;
                      d = joinSp [''M'', n cx, n (jadd cy r),
                                  ''c'', n s, n (Num 0), n r, n (jneg m), n r, n (jneg r),
                                  ''s'', n (jneg m), n (jneg r), n (jneg r), n (jneg r),
                                  ''s'', n (jneg r), n m, n (jneg r), n r,
                                  ''s'', n m, n r, n r, n r, ''z'']
                  in case addPathData env layer xform d False of
                       Inl e \<Rightarrow> Inl e
                     | Inr layer' \<Rightarrow>
                         Inr (labelLast layer' el (''circle @ '' @ showPt env (cx, cy))))
             | _ \<Rightarrow> Inl OutsideModel)
      | (Inl e, _, _) \<Rightarrow> Inl e
      | (_, Inl e, _) \<Rightarrow> Inl e
      | (_, _, Inl e) \<Rightarrow> Inl e)"

text \<open>
  \<^verbatim>\<open>
  function addEllipseToLayer(el, layer, xform) {
    console.error("FIXME: ADD SUPPORT FOR ELLIPSES");
    process.exit(2);
  }
  \<close>
\<close>

definition addEllipseToLayer ::
  "env \<Rightarrow> element \<Rightarrow> geo list \<Rightarrow> mat23 option \<Rightarrow> error + geo list" where
  "addEllipseToLayer env el layer xform = Inl (Exit 2)"

section \<open>Transforms\<close>

text \<open>
  \<open>/matrix\((.+?)\)/.exec(s)\<close>: the first place where \<open>matrix(\<close> is followed
  by one character or more, none of them a line terminator, and then by \<open>)\<close>; the
  group is the shortest such run. \<open>lazyGroup\<close> reads the run after
  \<open>matrix(\<close>, \<open>acc\<close> being what the group holds so far.
\<close>

fun lazyGroup :: "string \<Rightarrow> string \<Rightarrow> string option" where
  "lazyGroup acc [] = None"
| "lazyGroup acc (c # cs) =
     (if acc \<noteq> [] \<and> c = CHR '')'' then Some acc
      else if c = CHR 0x0A \<or> c = CHR 0x0D then None
      else lazyGroup (acc @ [c]) cs)"

fun matrixArgs :: "string \<Rightarrow> string option" where
  "matrixArgs [] = None"
| "matrixArgs (c # cs) =
     (if take 7 (c # cs) = ''matrix('' then
        (case lazyGroup [] (drop 7 (c # cs)) of
           Some g \<Rightarrow> Some g
         | None \<Rightarrow> matrixArgs cs)
      else matrixArgs cs)"

text \<open>\<open>n[k] * 1\<close>: past the end \<open>n[k]\<close> is \<open>undefined\<close>, and the product NaN.\<close>

definition numAt :: "env \<Rightarrow> string list \<Rightarrow> nat \<Rightarrow> jsnum" where
  "numAt env n k = (if k < length n then ToNumber env (n ! k) else NaN)"

text \<open>
  Matrices are objects, and \<open>mat23.multiply(xform, xform, mat)\<close> writes its result
  into its first argument, so they live in a store: a list of matrices, an address
  being an index into it. \<open>xform\<close> is an address, or \<open>undefined\<close> (\<open>None\<close>).
  \<^verbatim>\<open>
  function combineTransform(el, xform) {
    if (el.$ && el.$.transform) {
      const args = /matrix\((.+?)\)/.exec(el.$.transform.value);
      if (args) {
        const n = args[1].split(/[\s,]+/);
        const mat = mat23.new(n[0] * 1, n[1] * 1, n[2] * 1, n[3] * 1, n[4] * 1, n[5] * 1);
        return xform ? mat23.multiply(xform, xform, mat) : mat;
      }
    }
    return xform;
  }
  \<close>
  \<open>localMatrix\<close> is \<open>mat\<close> when the function gets that far.
\<close>

definition localMatrix :: "env \<Rightarrow> element \<Rightarrow> mat23 option" where
  "localMatrix env el =
     (case elAttrs el of
        None \<Rightarrow> None
      | Some as \<Rightarrow>
          (case map_of as ''transform'' of
             None \<Rightarrow> None
           | Some v \<Rightarrow>
               (case matrixArgs v of
                  None \<Rightarrow> None
                | Some a \<Rightarrow>
                    (let n = splitSep a in
                     Some \<lparr> m00 = numAt env n 0, m01 = numAt env n 1, m02 = numAt env n 2,
                            m03 = numAt env n 3, m04 = numAt env n 4, m05 = numAt env n 5 \<rparr>))))"

type_synonym store = "mat23 list"

definition combineTransform ::
  "env \<Rightarrow> element \<Rightarrow> nat option \<Rightarrow> store \<Rightarrow> nat option \<times> store" where
  "combineTransform env el xform h =
     (case localMatrix env el of
        None \<Rightarrow> (xform, h)
      | Some mat \<Rightarrow>
          (case xform of
             None \<Rightarrow> (Some (length h), h @ [mat])
           | Some x \<Rightarrow> (Some x, h[x := mat23_multiply (h ! x) mat])))"

text \<open>The matrix an address stands for, as the converters read it.\<close>

definition deref :: "store \<Rightarrow> nat option \<Rightarrow> mat23 option" where
  "deref h xform = map_option (\<lambda>x. h ! x) xform"


section \<open>The tree walk\<close>

text \<open>A converter reads the matrix and leaves the store as it is.\<close>

definition leaf ::
  "(geo list \<Rightarrow> mat23 option \<Rightarrow> error + geo list) \<Rightarrow> geo list \<times> store \<Rightarrow> nat option
     \<Rightarrow> error + geo list \<times> store" where
  "leaf conv st xform =
     (case conv (fst st) (deref (snd st) xform) of
        Inl e \<Rightarrow> Inl e
      | Inr layer' \<Rightarrow> Inr (layer', snd st))"

text \<open>
  \<^verbatim>\<open>
  function addElementToLayer(el, layer, xform) {
    xform = combineTransform(el, xform);
    switch (el['#name']) {
      case 'g': return addGroupToLayer(el, layer, xform);
      case 'path': return addPathToLayer(el, layer, xform);
      case 'rect': return addRectToLayer(el, layer, xform);
      case 'line': return addLineToLayer(el, layer, xform);
      case 'circle': return addCircleToLayer(el, layer, xform);
      case 'ellipse': return addEllipseToLayer(el, layer, xform);
      case 'polygon': return addPolygonToLayer(el, layer, xform);
      case 'polyline': return addPolylineToLayer(el, layer, xform);
      case 'style': case 'MetaInfo': case 'defs': case 'use':
        break;
      default:
        console.warn('Ignoring unhandled element ' + el['#name']);
    }
  }

  function addGroupToLayer(el, layer, xform) {
    el.$$.forEach(e => {
      addElementToLayer(e, layer, xform)
    })
  }
  \<close>
  The state is the layer being filled and the store of matrices. \<open>forEachChild\<close>
  is the \<open>forEach\<close> of \<open>addGroupToLayer\<close>: every child gets the same address
  \<open>xform\<close>. A group without children has no \<open>$$\<close>.
\<close>

fun addElementToLayer ::
  "env \<Rightarrow> element \<Rightarrow> geo list \<times> store \<Rightarrow> nat option \<Rightarrow> error + geo list \<times> store"
and addGroupToLayer ::
  "env \<Rightarrow> element \<Rightarrow> geo list \<times> store \<Rightarrow> nat option \<Rightarrow> error + geo list \<times> store"
and forEachChild ::
  "env \<Rightarrow> element list \<Rightarrow> geo list \<times> store \<Rightarrow> nat option \<Rightarrow> error + geo list \<times> store"
where
  "addElementToLayer env (Element nm ns as ch) st xform0 =
     (let el = Element nm ns as ch;
          (xform, h) = combineTransform env el xform0 (snd st);
          st' = (fst st, h)
      in if nm = ''g'' then addGroupToLayer env (Element nm ns as ch) st' xform
         else if nm = ''path'' then leaf (addPathToLayer env el) st' xform
         else if nm = ''rect'' then leaf (addRectToLayer env el) st' xform
         else if nm = ''line'' then leaf (addLineToLayer env el) st' xform
         else if nm = ''circle'' then leaf (addCircleToLayer env el) st' xform
         else if nm = ''ellipse'' then leaf (addEllipseToLayer env el) st' xform
         else if nm = ''polygon'' then leaf (addPolygonToLayer env el) st' xform
         else if nm = ''polyline'' then leaf (addPolylineToLayer env el) st' xform
         else Inr st')"
| "addGroupToLayer env (Element nm ns as ch) st xform =
     (case ch of
        None \<Rightarrow> Inl TypeError
      | Some es \<Rightarrow> forEachChild env es st xform)"
| "forEachChild env [] st xform = Inr st"
| "forEachChild env (e # es) st xform =
     (case addElementToLayer env e st xform of
        Inl err \<Rightarrow> Inl err
      | Inr st' \<Rightarrow> forEachChild env es st' xform)"


section \<open>Calibration\<close>

text \<open>
  \<^verbatim>\<open>
  const meta = svg.$$.find(e => e['$ns'] && e['$ns'].uri == 'http://www.prognoz.ru'
                                && e['$ns'].local == 'MetaInfo')
  const geo = meta && meta.$$.find(e => e['$ns'].local == 'Geo')
  const trangleVertices = geo && geo.$$.filter(e => e['$ns'].local == 'GeoItem')
  \<close>
  The second and third callbacks read \<open>local\<close> of \<open>e['$ns']\<close> unguarded.
  \<open>None\<close> is the \<open>undefined\<close> that \<open>find\<close> returns and \<open>&&\<close> passes on.
\<close>

definition isMetaInfo :: "element \<Rightarrow> bool" where
  "isMetaInfo e =
     (case elNs e of
        None \<Rightarrow> False
      | Some (uri, local) \<Rightarrow> uri = ''http://www.prognoz.ru'' \<and> local = ''MetaInfo'')"

fun findLocal :: "string \<Rightarrow> element list \<Rightarrow> error + element option" where
  "findLocal l [] = Inr None"
| "findLocal l (e # es) =
     (case elNs e of
        None \<Rightarrow> Inl TypeError
      | Some (uri, local) \<Rightarrow> if local = l then Inr (Some e) else findLocal l es)"

fun filterLocal :: "string \<Rightarrow> element list \<Rightarrow> error + element list" where
  "filterLocal l [] = Inr []"
| "filterLocal l (e # es) =
     (case elNs e of
        None \<Rightarrow> Inl TypeError
      | Some (uri, local) \<Rightarrow>
          (case filterLocal l es of
             Inl err \<Rightarrow> Inl err
           | Inr r \<Rightarrow> Inr (if local = l then e # r else r)))"

definition trangleVertices :: "element \<Rightarrow> error + element list option" where
  "trangleVertices svg =
     (case elChildren svg of
        None \<Rightarrow> Inl TypeError
      | Some cs \<Rightarrow>
          (case find isMetaInfo cs of
             None \<Rightarrow> Inr None
           | Some meta \<Rightarrow>
               (case elChildren meta of
                  None \<Rightarrow> Inl TypeError
                | Some ms \<Rightarrow>
                    (case findLocal ''Geo'' ms of
                       Inl e \<Rightarrow> Inl e
                     | Inr None \<Rightarrow> Inr None
                     | Inr (Some geo) \<Rightarrow>
                         (case elChildren geo of
                            None \<Rightarrow> Inl TypeError
                          | Some gs \<Rightarrow>
                              (case filterLocal ''GeoItem'' gs of
                                 Inl e \<Rightarrow> Inl e
                               | Inr vs \<Rightarrow> Inr (Some vs)))))))"

text \<open>The matrix of package transformation-matrix-js, coefficients \<open>a .. f\<close>.\<close>

record tmatrix =
  ta :: jsnum
  tb :: jsnum
  tc :: jsnum
  td :: jsnum
  te :: jsnum
  tf :: jsnum

fun jdiv :: "jsnum \<Rightarrow> jsnum \<Rightarrow> jsnum" where
  "jdiv (Num a) (Num b) = (if b = 0 then NaN else Num (a / b))"
| "jdiv _ _ = NaN"

text \<open>
  Twice the signed area of the triangle \<open>[x1, y1, x2, y2, x3, y3]\<close>; zero exactly
  when the three points are collinear.
\<close>

definition triangleDet :: "jsnum list \<Rightarrow> jsnum" where
  "triangleDet t =
     jsub (jmul (jsub (t ! 0) (t ! 4)) (jsub (t ! 3) (t ! 5)))
          (jmul (jsub (t ! 2) (t ! 4)) (jsub (t ! 1) (t ! 5)))"

text \<open>
  Modelled from the spec: \<open>Matrix.fromTriangles\<close> of package
  transformation-matrix-js, which is not part of the sources. The spec: the unique
  affine transform that maps each of the three source points to its target point,
  obtained by solving the six equations; it fails with the spec's CalibrationError when
  the metadata is malformed, that is when one of the twelve values is not a number, and
  when the three source points are collinear. Both arguments are arrays of six numbers.
\<close>

definition calibrationError :: error where
  "calibrationError = Thrown ''CalibrationError''"

definition fromTriangles :: "jsnum list \<Rightarrow> jsnum list \<Rightarrow> error + tmatrix" where
  "fromTriangles t1 t2 =
     (let det = triangleDet t1 in
      if NaN \<in> set (t1 @ t2) \<or> det = Num 0 then Inl calibrationError
      else
        (let dx1 = jsub (t1 ! 0) (t1 ! 4); dy1 = jsub (t1 ! 1) (t1 ! 5);
             dx2 = jsub (t1 ! 2) (t1 ! 4); dy2 = jsub (t1 ! 3) (t1 ! 5);
             du1 = jsub (t2 ! 0) (t2 ! 4); dv1 = jsub (t2 ! 1) (t2 ! 5);
             du2 = jsub (t2 ! 2) (t2 ! 4); dv2 = jsub (t2 ! 3) (t2 ! 5);
             a = jdiv (jsub (jmul du1 dy2) (jmul du2 dy1)) det;
             c = jdiv (jsub (jmul du2 dx1) (jmul du1 dx2)) det;
             b = jdiv (jsub (jmul dv1 dy2) (jmul dv2 dy1)) det;
             d = jdiv (jsub (jmul dv2 dx1) (jmul dv1 dx2)) det
         in Inr \<lparr> ta = a, tb = b, tc = c, td = d,
                  te = jsub (jsub (t2 ! 4) (jmul a (t1 ! 4))) (jmul c (t1 ! 5)),
                  tf = jsub (jsub (t2 ! 5) (jmul b (t1 ! 4))) (jmul d (t1 ! 5)) \<rparr>))"

text \<open>
  Modelled from the spec: \<open>applyToPoint\<close> of the same package, the standard affine
  application.
\<close>

definition applyToPoint :: "tmatrix \<Rightarrow> jsnum \<Rightarrow> jsnum \<Rightarrow> pt" where
  "applyToPoint m x y =
     (jadd (jadd (jmul x (ta m)) (jmul y (tc m))) (te m),
      jadd (jadd (jmul x (tb m)) (jmul y (td m))) (tf m))"

text \<open>\<open>el.$.N.value\<close>: a \<open>TypeError\<close> without attributes or without that one.\<close>

definition attrValue :: "element \<Rightarrow> string \<Rightarrow> error + string" where
  "attrValue el n =
     (case elAttrs el of
        None \<Rightarrow> Inl TypeError
      | Some as \<Rightarrow> (case map_of as n of None \<Rightarrow> Inl TypeError | Some v \<Rightarrow> Inr v))"

fun attrValues :: "(element \<times> string) list \<Rightarrow> error + string list" where
  "attrValues [] = Inr []"
| "attrValues ((el, n) # rest) =
     (case attrValue el n of
        Inl e \<Rightarrow> Inl e
      | Inr v \<Rightarrow> (case attrValues rest of Inl e \<Rightarrow> Inl e | Inr vs \<Rightarrow> Inr (v # vs)))"

text \<open>
  \<^verbatim>\<open>
  function getConvertMatrix(vertices) {
    const originalXYs = [ vertices[0].$.X.value, vertices[0].$.Y.value,
                          vertices[1].$.X.value, vertices[1].$.Y.value,
                          vertices[2].$.X.value, vertices[2].$.Y.value ];
    const targetLatLongs = [ vertices[0].$.Longitude.value, vertices[0].$.Latitude.value,
                             vertices[1].$.Longitude.value, vertices[1].$.Latitude.value,
                             vertices[2].$.Longitude.value, vertices[2].$.Latitude.value ];
    const originalTriangle = originalXYs.map(xy => parseFloat(xy));
    const targetTriangle = targetLatLongs.map(latlong => parseFloat(latlong));
    return transformer.Matrix.fromTriangles(originalTriangle, targetTriangle);
  }
  \<close>
  The caller has checked that there are three vertices.
\<close>

definition originalTriangle :: "env \<Rightarrow> element list \<Rightarrow> error + jsnum list" where
  "originalTriangle env vertices =
     (case attrValues [(vertices ! 0, ''X''), (vertices ! 0, ''Y''),
                       (vertices ! 1, ''X''), (vertices ! 1, ''Y''),
                       (vertices ! 2, ''X''), (vertices ! 2, ''Y'')] of
        Inl e \<Rightarrow> Inl e
      | Inr originalXYs \<Rightarrow> Inr (map (parseFloat env) originalXYs))"

definition targetTriangle :: "env \<Rightarrow> element list \<Rightarrow> error + jsnum list" where
  "targetTriangle env vertices =
     (case attrValues [(vertices ! 0, ''Longitude''), (vertices ! 0, ''Latitude''),
                       (vertices ! 1, ''Longitude''), (vertices ! 1, ''Latitude''),
                       (vertices ! 2, ''Longitude''), (vertices ! 2, ''Latitude'')] of
        Inl e \<Rightarrow> Inl e
      | Inr targetLatLongs \<Rightarrow> Inr (map (parseFloat env) targetLatLongs))"

definition getConvertMatrix :: "env \<Rightarrow> element list \<Rightarrow> error + tmatrix" where
  "getConvertMatrix env vertices =
     (case originalTriangle env vertices of
        Inl e \<Rightarrow> Inl e
      | Inr t1 \<Rightarrow>
          (case targetTriangle env vertices of
             Inl e \<Rightarrow> Inl e
           | Inr t2 \<Rightarrow> fromTriangles t1 t2))"


section \<open>The conversion\<close>

record options =
  layers :: bool
  debug :: bool

text \<open>
  A feature \<open>{type: 'Feature', properties, geometry}\<close>. \<open>properties\<close> is
  \<open>null\<close> (\<open>None\<close>) or an object, given by its keys and their values, a value
  \<open>None\<close> being \<open>undefined\<close>.
\<close>

record feature =
  properties :: "(string \<times> string option) list option"
  fgeometry :: geo

text \<open>
  A collection \<open>{type: 'FeatureCollection', creator, features}\<close>; \<open>creator\<close> is
  a constant string built from the package version and is left out.
\<close>

type_synonym collection = "feature list"

datatype result = Single collection | Layers "(string \<times> collection) list"

text \<open>
  \<^verbatim>\<open>
  function convertCoordinates(coords, convertMatrix) {
    if (typeof coords[0] === 'number') {
      return convertCoordinate(coords, convertMatrix);
    }
    return coords.map(point => convertCoordinates(point, convertMatrix));
  }

  function convertCoordinate(point, matrix) {
    const x = point[0];
    const y = point[1];
    const transformedPoint = matrix.applyToPoint(x, y);
    return [transformedPoint.x, transformedPoint.y];
  }
  \<close>
  On the three shapes of \<open>coordinates\<close>.
\<close>

definition convertCoordinate :: "pt \<Rightarrow> tmatrix \<Rightarrow> pt" where
  "convertCoordinate point matrix = applyToPoint matrix (fst point) (snd point)"

fun convertCoordinates :: "geometry \<Rightarrow> tmatrix \<Rightarrow> geometry" where
  "convertCoordinates (Point p) m = Point (convertCoordinate p m)"
| "convertCoordinates (LineString ps) m = LineString (map (\<lambda>p. convertCoordinate p m) ps)"
| "convertCoordinates (Polygon rs) m =
     Polygon (map (\<lambda>r. map (\<lambda>p. convertCoordinate p m) r) rs)"

text \<open>
  \<^verbatim>\<open>
  features: layerByName[name].map(data => {
    data.coordinates = convertCoordinates(data.coordinates, convertMatrix);
    return {
      type: 'Feature',
      properties: options.debug ? { svgID: data.coordinates.debugId } : null,
      geometry: data
    };
  })
  \<close>
  \<open>convertCoordinates\<close> returns an array made by \<open>map\<close> or by an array
  literal: a new array, without the \<open>debugId\<close> property of the one it read. The
  assignment puts it in place of the old one before \<open>properties\<close> is built.
\<close>

definition toFeature :: "options \<Rightarrow> tmatrix \<Rightarrow> geo \<Rightarrow> feature" where
  "toFeature opts convertMatrix data0 =
     (let data = \<lparr> geometry = convertCoordinates (geometry data0) convertMatrix,
                    debugId = None \<rparr>
      in \<lparr> properties = (if debug opts then Some [(''svgID'', debugId data)] else None),
           fgeometry = data \<rparr>)"

text \<open>
  \<open>layerByName\<close> is an object used as a dictionary; its keys are kept in insertion
  order, which is the order of \<open>for (const name in layerByName)\<close> as long as no key
  is an integer index and none is a property of \<open>Object.prototype\<close>.
\<close>

type_synonym layerdict = "(string \<times> geo list) list"

definition getLayer :: "layerdict \<Rightarrow> string \<Rightarrow> geo list" where
  "getLayer d name = (case map_of d name of None \<Rightarrow> [] | Some l \<Rightarrow> l)"

fun setLayer :: "layerdict \<Rightarrow> string \<Rightarrow> geo list \<Rightarrow> layerdict" where
  "setLayer [] name l = [(name, l)]"
| "setLayer ((k, v) # d) name l =
     (if k = name then (k, l) # d else (k, v) # setLayer d name l)"

definition isDigit :: "char \<Rightarrow> bool" where
  "isDigit c = (c \<in> set ''0123456789'')"

definition unorderedKey :: "string \<Rightarrow> bool" where
  "unorderedKey name =
     ((name \<noteq> [] \<and> list_all isDigit name)
      \<or> name \<in> set [''constructor'', ''hasOwnProperty'', ''isPrototypeOf'',
                      ''propertyIsEnumerable'', ''toLocaleString'', ''toString'', ''valueOf''])"

text \<open>
  \<open>el.$.id.value.replace(/_1_$/, '').replace(/_/g, ' ')\<close>
\<close>

definition layerNameOfId :: "string \<Rightarrow> string" where
  "layerNameOfId v =
     (let n = length v;
          v' = (if 3 \<le> n \<and> drop (n - 3) v = ''_1_'' then take (n - 3) v else v)
      in map (\<lambda>c. if c = CHR ''_'' then CHR '' '' else c) v')"

text \<open>
  \<^verbatim>\<open>
  const layerByName = {};
  svg.$$.forEach((el, i) => {
    if (options.layers && el['#name'] === 'g') {
      const name = el.$.id ? el.$.id.value.replace(/_1_$/, '').replace(/_/g, ' ') : ('Layer ' + i);
      if (!layerByName[name]) {
        layerByName[name] = [];
      }
      addGroupToLayer(el, layerByName[name], combineTransform(el));
    } else {
      if (!layerByName['']) {
        layerByName[''] = [];
      }
      addElementToLayer(el, layerByName['']);
    }
  });
  \<close>
  One step of the loop, on the child \<open>el\<close> at index \<open>i\<close>; the state is the
  dictionary and the store. The layer is created before the walk, so it is in the
  dictionary also when the walk adds nothing to it.
\<close>

definition topStep ::
  "env \<Rightarrow> options \<Rightarrow> element \<Rightarrow> nat \<Rightarrow> layerdict \<times> store \<Rightarrow> error + layerdict \<times> store" where
  "topStep env opts el i st =
     (if layers opts \<and> elName el = ''g'' then
        (case elAttrs el of
           None \<Rightarrow> Inl TypeError
         | Some as \<Rightarrow>
             (let name = (case map_of as ''id'' of
                            Some v \<Rightarrow> layerNameOfId v
                          | None \<Rightarrow> ''Layer '' @ NumberToString env (Num (real i)))
              in if unorderedKey name then Inl OutsideModel
                 else
                   (let (xform, h) = combineTransform env el None (snd st) in
                    case addGroupToLayer env el (getLayer (fst st) name, h) xform of
                      Inl e \<Rightarrow> Inl e
                    | Inr (layer', h') \<Rightarrow> Inr (setLayer (fst st) name layer', h'))))
      else
        (case addElementToLayer env el (getLayer (fst st) [], snd st) None of
           Inl e \<Rightarrow> Inl e
         | Inr (layer', h') \<Rightarrow> Inr (setLayer (fst st) [] layer', h')))"

fun topLoop ::
  "env \<Rightarrow> options \<Rightarrow> element list \<Rightarrow> nat \<Rightarrow> layerdict \<times> store \<Rightarrow> error + layerdict \<times> store" where
  "topLoop env opts [] i st = Inr st"
| "topLoop env opts (el # els) i st =
     (case topStep env opts el i st of
        Inl e \<Rightarrow> Inl e
      | Inr st' \<Rightarrow> topLoop env opts els (i + 1) st')"

text \<open>
  \<^verbatim>\<open>
  const layers = [];
  for (const name in layerByName) {
    if (!layerByName[name].length) {
      continue;
    }
    const geo = { type: 'FeatureCollection', creator: ..., features: layerByName[name].map(...) };
    layers.push({ name, geo });
  }
  return options.layers ? layers : layers[0].geo;
  \<close>
  \<open>layers[0]\<close> of an empty array is \<open>undefined\<close>, and \<open>.geo\<close> on it a
  \<open>TypeError\<close>.
\<close>

definition buildLayers :: "options \<Rightarrow> tmatrix \<Rightarrow> layerdict \<Rightarrow> (string \<times> collection) list" where
  "buildLayers opts convertMatrix d =
     map (\<lambda>(name, l). (name, map (toFeature opts convertMatrix) l))
         (filter (\<lambda>(name, l). l \<noteq> []) d)"

definition selectOutput :: "options \<Rightarrow> (string \<times> collection) list \<Rightarrow> error + result" where
  "selectOutput opts ls =
     (if layers opts then Inr (Layers ls)
      else (case ls of [] \<Rightarrow> Inl TypeError | l # _ \<Rightarrow> Inr (Single (snd l))))"

text \<open>Everything after the calibration: the walk, the features, the selection.\<close>

definition processGeometry :: "env \<Rightarrow> options \<Rightarrow> element \<Rightarrow> tmatrix \<Rightarrow> error + result" where
  "processGeometry env opts svg convertMatrix =
     (case elChildren svg of
        None \<Rightarrow> Inl TypeError
      | Some els \<Rightarrow>
          (case topLoop env opts els 0 ([], []) of
             Inl e \<Rightarrow> Inl e
           | Inr (d, h) \<Rightarrow> selectOutput opts (buildLayers opts convertMatrix d)))"

text \<open>
  \<^verbatim>\<open>
  function convertSVGToGeoJSON(doc, options = {}) {
    const { svg } = doc;
    ...
    if (!trangleVertices || trangleVertices.length != 3) {
      console.error('Your SVG file must include Prognoz MetaInfo ...');
      process.exit(1);
    }
    const convertMatrix = getConvertMatrix(trangleVertices);
    ...
  }
  \<close>
  on the root element \<open>svg\<close> of the document.
\<close>

definition convertSVGToGeoJSON :: "env \<Rightarrow> element \<Rightarrow> options \<Rightarrow> error + result" where
  "convertSVGToGeoJSON env svg opts =
     (case trangleVertices svg of
        Inl e \<Rightarrow> Inl e
      | Inr None \<Rightarrow> Inl (Exit 1)
      | Inr (Some vs) \<Rightarrow>
          if length vs \<noteq> 3 then Inl (Exit 1)
          else
            (case getConvertMatrix env vs of
               Inl e \<Rightarrow> Inl e
             | Inr convertMatrix \<Rightarrow> processGeometry env opts svg convertMatrix))"


section \<open>The claims' own words\<close>





section \<open>Example inputs\<close>

text \<open>
  A runtime for the examples. \<open>exToNumber\<close> is \<open>ToNumber\<close> on the empty string and
  on plain integer literals, and NaN on every other string; the examples use no string on
  which the two differ (a fraction, an exponent, a radix prefix, \<open>Infinity\<close>, white
  space around a literal). \<open>exParseFloat\<close> and \<open>exNumberToString\<close> are the
  runtime's functions on the same strings and on the integers. The flattener and the
  regular expression are given on the two paths of the examples.
\<close>

fun natOfDigits :: "nat \<Rightarrow> string \<Rightarrow> nat option" where
  "natOfDigits acc [] = Some acc"
| "natOfDigits acc (c # cs) =
     (if isDigit c then natOfDigits (10 * acc + (of_char c - 48)) cs else None)"

definition exToNumber :: "string \<Rightarrow> jsnum" where
  "exToNumber s =
     (case s of
        [] \<Rightarrow> Num 0
      | c # cs \<Rightarrow>
          if c = CHR ''-'' then
            (if cs = [] then NaN
             else (case natOfDigits 0 cs of None \<Rightarrow> NaN | Some n \<Rightarrow> Num (- real n)))
          else (case natOfDigits 0 s of None \<Rightarrow> NaN | Some n \<Rightarrow> Num (real n)))"

definition exParseFloat :: "string \<Rightarrow> jsnum" where
  "exParseFloat s = (if s = [] then NaN else exToNumber s)"

fun showNat :: "nat \<Rightarrow> string" where
  "showNat n =
     (if n < 10 then [char_of (48 + n)] else showNat (n div 10) @ [char_of (48 + n mod 10)])"

definition exNumberToString :: "jsnum \<Rightarrow> string" where
  "exNumberToString n =
     (case n of
        NaN \<Rightarrow> ''NaN''
      | Num r \<Rightarrow> (if r < 0 then ''-'' else []) @ showNat (nat \<lfloor>\<bar>r\<bar>\<rfloor>))"

definition exPathDataToPolys :: "string \<Rightarrow> poly list" where
  "exPathDataToPolys d =
     (if d = ''M0,0 L10,0''
      then [\<lparr> points = [(Num 0, Num 0), (Num 10, Num 0)], closed = False \<rparr>]
      else if d = ''M0,0 L10,0 L10,10 z''
      then [\<lparr> points = [(Num 0, Num 0), (Num 10, Num 0), (Num 10, Num 10), (Num 0, Num 0)],
              closed = True \<rparr>]
      else [])"

definition exPathStart :: "string \<Rightarrow> string option" where
  "exPathStart d =
     (if d = ''M0,0 L10,0'' \<or> d = ''M0,0 L10,0 L10,10 z'' then Some ''M0,0'' else None)"

definition exEnv :: env where
  "exEnv = \<lparr> ToNumber = exToNumber, NumberToString = exNumberToString,
             parseFloat = exParseFloat, pathDataToPolys = exPathDataToPolys,
             pathStart = exPathStart \<rparr>"

text \<open>
  The metadata block: three \<open>GeoItem\<close>s taking (0,0), (100,0), (0,100) to
  (0,0), (1,0), (0,1).
\<close>

definition exGeoItem :: "string \<Rightarrow> string \<Rightarrow> string \<Rightarrow> string \<Rightarrow> element" where
  "exGeoItem x y lon lat =
     Element ''GeoItem'' (Some (''http://www.prognoz.ru'', ''GeoItem''))
       (Some [(''X'', x), (''Y'', y), (''Longitude'', lon), (''Latitude'', lat)]) None"

definition exMetaOf :: "element list \<Rightarrow> element" where
  "exMetaOf items =
     Element ''MetaInfo'' (Some (''http://www.prognoz.ru'', ''MetaInfo'')) None
       (Some [Element ''Geo'' (Some (''http://www.prognoz.ru'', ''Geo'')) None (Some items)])"

definition exMeta :: element where
  "exMeta = exMetaOf [exGeoItem ''0'' ''0'' ''0'' ''0'', exGeoItem ''100'' ''0'' ''1'' ''0'',
                      exGeoItem ''0'' ''100'' ''0'' ''1'']"

text \<open>An element of the SVG namespace.\<close>

definition svgEl ::
  "string \<Rightarrow> (string \<times> string) list option \<Rightarrow> element list option \<Rightarrow> element" where
  "svgEl nm as ch = Element nm (Some (''http://www.w3.org/2000/svg'', nm)) as ch"

definition exSvg :: "element list \<Rightarrow> element" where
  "exSvg els = svgEl ''svg'' None (Some els)"

text \<open>A document with the metadata and nothing to draw.\<close>

definition exDocNoGeometry :: element where
  "exDocNoGeometry = exSvg [exMeta]"

text \<open>\<open><polyline id="road" points="0,0 10,0"/>\<close> and the document holding it.\<close>

definition exPolyline :: element where
  "exPolyline =
     svgEl ''polyline'' (Some [(''id'', ''road''), (''points'', ''0,0 10,0'')]) None"

definition exDocPolyline :: element where
  "exDocPolyline = exSvg [exMeta, exPolyline]"



text \<open>\<open><polygon points="abc"/>\<close>, and \<open><polygon/>\<close> without any attribute.\<close>

definition exPolygonNoPairs :: element where
  "exPolygonNoPairs = svgEl ''polygon'' (Some [(''points'', ''abc'')]) None"

definition exPolygonBare :: element where
  "exPolygonBare = svgEl ''polygon'' None None"


text \<open>
  \<^verbatim>\<open>
  <g transform="matrix(1 0 0 1 10 0)">
    <polyline id="a" transform="matrix(1 0 0 1 5 0)" points="0,0 1,0"/>
    <polyline id="b" points="0,0 1,0"/>
  </g>
  \<close>
\<close>

definition exChildA :: element where
  "exChildA =
     svgEl ''polyline'' (Some [(''id'', ''a''), (''transform'', ''matrix(1 0 0 1 5 0)''),
                              (''points'', ''0,0 1,0'')]) None"

definition exGroup :: element where
  "exGroup =
     svgEl ''g'' (Some [(''transform'', ''matrix(1 0 0 1 10 0)'')])
       (Some [exChildA,
              svgEl ''polyline'' (Some [(''id'', ''b''), (''points'', ''0,0 1,0'')]) None])"


text \<open>
  Documents with the polyline and: no metadata; two \<open>GeoItem\<close>s only; three
  \<open>GeoItem\<close>s on one line.
\<close>

definition exDocNoMeta :: element where
  "exDocNoMeta = exSvg [exPolyline]"

definition exDocTwoItems :: element where
  "exDocTwoItems =
     exSvg [exMetaOf [exGeoItem ''0'' ''0'' ''0'' ''0'', exGeoItem ''100'' ''0'' ''1'' ''0''],
            exPolyline]"

definition exDocCollinear :: element where
  "exDocCollinear =
     exSvg [exMetaOf [exGeoItem ''0'' ''0'' ''0'' ''0'', exGeoItem ''50'' ''50'' ''1'' ''0'',
                      exGeoItem ''100'' ''100'' ''0'' ''1''],
            exPolyline]"


text \<open>
  \<^verbatim>\<open>
  <g transform="matrix(1 0 0 1 10 0)">
    <polyline id="a" transform="matrix(1 0 0 1 5 0)" points="0,0 1,0"/>
    <polyline id="c" transform="matrix(1 0 0 1 7 0)" points="0,0 1,0"/>
  </g>
  \<close>
\<close>

definition exGroupTwo :: element where
  "exGroupTwo =
     svgEl ''g'' (Some [(''transform'', ''matrix(1 0 0 1 10 0)'')])
       (Some [exChildA,
              svgEl ''polyline'' (Some [(''id'', ''c''), (''transform'', ''matrix(1 0 0 1 7 0)''),
                                       (''points'', ''0,0 1,0'')]) None])"

text \<open>
  Documents with the polyline and three \<open>GeoItem\<close>s that are not collinear, the
  third without \<open>Latitude\<close> in the first, the first with \<open>X="abc"\<close> in the
  second.
\<close>

definition exDocNoLatitude :: element where
  "exDocNoLatitude =
     exSvg [exMetaOf [exGeoItem ''0'' ''0'' ''0'' ''0'', exGeoItem ''100'' ''0'' ''1'' ''0'',
                      Element ''GeoItem'' (Some (''http://www.prognoz.ru'', ''GeoItem''))
                        (Some [(''X'', ''0''), (''Y'', ''100''), (''Longitude'', ''0'')]) None],
            exPolyline]"

definition exDocNotNumber :: element where
  "exDocNotNumber =
     exSvg [exMetaOf [exGeoItem ''abc'' ''0'' ''0'' ''0'', exGeoItem ''100'' ''0'' ''1'' ''0'',
                      exGeoItem ''0'' ''100'' ''0'' ''1''],
            exPolyline]"

section \<open>Notions used in the proofs\<close>




section \<open>Properties\<close>

subsection \<open>The default output of a document without geometry\<close>

text \<open>
  C10. There is a valid input, with three non-collinear \<open>GeoItem\<close>s and no element
  that produces a geometry, on which the default (non-layer) conversion does not return
  an empty collection: the only layer is empty and is dropped, \<open>layers[0]\<close> is
  \<open>undefined\<close>, and the conversion ends in a \<open>TypeError\<close>.
\<close>

theorem no_geometry_default_fails:
  "convertSVGToGeoJSON exEnv exDocNoGeometry \<lparr> layers = False, debug = False \<rparr> = Inl TypeError"
  by code_simp


subsection \<open>Path and polyline geometries\<close>



lemma geometry_addDebugId: "geometry (addDebugId g el fb) = geometry g"
  by (simp add: addDebugId_def)





lemma parsePoints_empty: "parsePoints env (splitSep []) = []"
  by (simp add: splitSep_def)

text \<open>
  C7. A polyline element whose \<open>points\<close> attribute yields at least one coordinate
  pair adds a LineString, not a Polygon, whose coordinates are the parsed points in input
  order followed by a copy of the first one, each passed through the accumulated
  transform when there is one.
\<close>

theorem polyline_coordinates:
  assumes "attrs env el ''points'' = Inr (AStr s)"
    and "parsePoints env (splitSep s) = pts" and "pts \<noteq> []"
  shows "\<exists>g. addPolylineToLayer env el layer xform = Inr (layer @ [g]) \<and>
           geometry g = LineString (coords (pts @ [hd pts]) xform) \<and>
           (xform = None \<longrightarrow> geometry g = LineString (pts @ [hd pts]))"
proof -
  have "s \<noteq> []" using assms(2,3) parsePoints_empty by auto
  then show ?thesis using assms
    by (auto simp: addPolylineToLayer_def Let_def geometry_addDebugId hd_conv_nth coords_def)
qed

theorem polyline_coordinates_witness:
  "\<exists>g. addPolylineToLayer exEnv exPolyline [] None = Inr [g] \<and>
        geometry g = LineString [(Num 0, Num 0), (Num 10, Num 0), (Num 0, Num 0)]"
proof -
  have a: "attrs exEnv exPolyline ''points'' = Inr (AStr ''0,0 10,0'')" by code_simp
  have b: "parsePoints exEnv (splitSep ''0,0 10,0'') = [(Num 0, Num 0), (Num 10, Num 0)]"
    by code_simp
  have c: "[(Num 0, Num 0), (Num 10, Num 0)] \<noteq> ([] :: pt list)" by simp
  show ?thesis
    using polyline_coordinates [OF a b c, of "[]" None] by auto
qed


subsection \<open>Polygons without coordinate pairs\<close>

text \<open>
  C8. The claim is that a polygon element whose \<open>points\<close> attribute is absent or
  yields no coordinate pair is skipped without an error. The program skips it only when
  the attribute is absent from a non-empty attribute list or reads as the number zero.
  On \<open><polygon points="abc"/>\<close> no pair is parsed and \<open>pts[0].concat()\<close> is a
  \<open>TypeError\<close>; on \<open><polygon/>\<close>, which has no attribute at all,
  \<open>el.$[n]\<close> in \<open>attrs\<close> is a \<open>TypeError\<close>.
\<close>

theorem polygon_without_pairs_raises:
  "addPolygonToLayer exEnv exPolygonNoPairs [] None = Inl TypeError
   \<and> addPolygonToLayer exEnv exPolygonBare [] None = Inl TypeError"
  by code_simp

subsection \<open>Debug labels\<close>

text \<open>
  C5. The claim is that in debug mode every feature carries \<open>svgID\<close> with the
  element's debug label. On the document with \<open><polyline id="road" .../>\<close> the
  label \<open>#road\<close> is recorded on the coordinates array of the geometry, but the
  feature built in debug mode has \<open>svgID\<close> \<open>undefined\<close>: the array was
  replaced by the converted one before the label was read.
\<close>

theorem debug_label_lost:
  "addPolylineToLayer exEnv exPolyline [] None =
     Inr [\<lparr> geometry = LineString [(Num 0, Num 0), (Num 10, Num 0), (Num 0, Num 0)],
            debugId = Some ''#road'' \<rparr>]
   \<and> convertSVGToGeoJSON exEnv exDocPolyline \<lparr> layers = False, debug = True \<rparr> =
     Inr (Single
           [\<lparr> properties = Some [(''svgID'', None)],
              fgeometry =
                \<lparr> geometry = LineString [(Num 0, Num 0), (Num (1 / 10), Num 0), (Num 0, Num 0)],
                  debugId = None \<rparr> \<rparr>])"
  by code_simp

subsection \<open>The transform shared by siblings\<close>

text \<open>
  C4. The claim is that composing never changes the parent's transform, so that a later
  sibling sees it as it was. In the group of the example the parent translates by 10 and
  only the first child has a transform of its own, a translation by 5. The second child
  is placed at 15 and not at 10, and the one matrix in the store, the parent's, ends as
  the translation by 15: the composition for the first child was written into it.
\<close>

theorem sibling_sees_composed_transform:
  "addElementToLayer exEnv exGroup ([], []) None =
     Inr ([\<lparr> geometry = LineString [(Num 15, Num 0), (Num 16, Num 0), (Num 15, Num 0)],
             debugId = Some ''#a'' \<rparr>,
           \<lparr> geometry = LineString [(Num 15, Num 0), (Num 16, Num 0), (Num 15, Num 0)],
             debugId = Some ''#b'' \<rparr>],
          [\<lparr> m00 = Num 1, m01 = Num 0, m02 = Num 0, m03 = Num 1, m04 = Num 15, m05 = Num 0 \<rparr>])"
  by code_simp


subsection \<open>Winding\<close>

lemma jadd_NaN_right [simp]: "jadd v NaN = NaN"
  by (cases v) simp_all
lemma jmul_NaN_right [simp]: "jmul v NaN = NaN"
  by (cases v) simp_all
lemma jsub_NaN_right [simp]: "jsub v NaN = NaN"
  by (cases v) simp_all






















text \<open>Rounding to binary64 on the integers the examples meet.\<close>

lemma rne_of_int [simp]: "rne (of_int k) = k"
  by (simp add: rne_def)




















subsection \<open>Composition of transforms\<close>

lemma affine_compose:
  "jadd (jadd (jmul (jadd (jmul a0 b0) (jmul a2 b1)) x)
              (jmul (jadd (jmul a0 b2) (jmul a2 b3)) y))
        (jadd (jadd (jmul a0 b4) (jmul a2 b5)) a4)
   = jadd (jadd (jmul a0 (jadd (jadd (jmul b0 x) (jmul b2 y)) b4))
                (jmul a2 (jadd (jadd (jmul b1 x) (jmul b3 y)) b5)))
          a4"
  by (cases a0; cases a2; cases a4; cases b0; cases b1; cases b2; cases b3; cases b4; cases b5;
      cases x; cases y; simp add: algebra_simps)

lemma transformMat23_multiply:
  "transformMat23 p (mat23_multiply a b) = transformMat23 (transformMat23 p b) a"
  by (simp add: transformMat23_def mat23_multiply_def affine_compose)

lemma combineTransform_parent:
  "localMatrix env el = Some mat \<Longrightarrow>
   combineTransform env el (Some x) h = (Some x, h[x := mat23_multiply (h ! x) mat])"
  by (simp add: combineTransform_def)

text \<open>
  C3. The claim is that the transform carried into a child is parent \<open>\<circ>\<close> child for every
  nesting. In the group of the example the parent translates by 10 and the two children
  by 5 and by 7, so the second child belongs at 17, where \<open>multiply(parent, child)\<close>
  puts it. The walk puts it at 22: the composition for the first child was written into
  the parent's matrix, and the second child is composed with that.
\<close>

theorem second_child_composed_with_first:
  "addElementToLayer exEnv exGroupTwo ([], []) None =
     Inr ([\<lparr> geometry = LineString [(Num 15, Num 0), (Num 16, Num 0), (Num 15, Num 0)],
             debugId = Some ''#a'' \<rparr>,
           \<lparr> geometry = LineString [(Num 22, Num 0), (Num 23, Num 0), (Num 22, Num 0)],
             debugId = Some ''#c'' \<rparr>],
          [\<lparr> m00 = Num 1, m01 = Num 0, m02 = Num 0, m03 = Num 1, m04 = Num 22, m05 = Num 0 \<rparr>])
   \<and> coords [(Num 0, Num 0), (Num 1, Num 0), (Num 0, Num 0)]
         (Some (mat23_multiply
                  \<lparr> m00 = Num 1, m01 = Num 0, m02 = Num 0, m03 = Num 1, m04 = Num 10, m05 = Num 0 \<rparr>
                  \<lparr> m00 = Num 1, m01 = Num 0, m02 = Num 0, m03 = Num 1, m04 = Num 7, m05 = Num 0 \<rparr>))
       = [(Num 17, Num 0), (Num 18, Num 0), (Num 17, Num 0)]"
  by code_simp

subsection \<open>Calibration comes first\<close>

text \<open>
  C2. As the claim states it, the conversion aborts when the metadata is missing, has
  not exactly three entries or has collinear source points, and otherwise the
  calibration succeeds. The document of the example has three \<open>GeoItem\<close>s whose
  source points (0,0), (100,0), (0,100) are not collinear; the third has no
  \<open>Latitude\<close>. The calibration does not succeed: \<open>vertices[2].$.Latitude.value\<close>
  is a \<open>TypeError\<close>, and the conversion ends with it.
\<close>

theorem missing_attribute_counterexample:
  "trangleVertices exDocNoLatitude =
     Inr (Some [exGeoItem ''0'' ''0'' ''0'' ''0'', exGeoItem ''100'' ''0'' ''1'' ''0'',
                Element ''GeoItem'' (Some (''http://www.prognoz.ru'', ''GeoItem''))
                  (Some [(''X'', ''0''), (''Y'', ''100''), (''Longitude'', ''0'')]) None])
   \<and> originalTriangle exEnv
         [exGeoItem ''0'' ''0'' ''0'' ''0'', exGeoItem ''100'' ''0'' ''1'' ''0'',
          Element ''GeoItem'' (Some (''http://www.prognoz.ru'', ''GeoItem''))
            (Some [(''X'', ''0''), (''Y'', ''100''), (''Longitude'', ''0'')]) None]
       = Inr [Num 0, Num 0, Num 100, Num 0, Num 0, Num 100]
   \<and> triangleDet [Num 0, Num 0, Num 100, Num 0, Num 0, Num 100] = Num 10000
   \<and> getConvertMatrix exEnv
         [exGeoItem ''0'' ''0'' ''0'' ''0'', exGeoItem ''100'' ''0'' ''1'' ''0'',
          Element ''GeoItem'' (Some (''http://www.prognoz.ru'', ''GeoItem''))
            (Some [(''X'', ''0''), (''Y'', ''100''), (''Longitude'', ''0'')]) None]
       = Inl TypeError
   \<and> convertSVGToGeoJSON exEnv exDocNoLatitude \<lparr> layers = False, debug = False \<rparr> = Inl TypeError"
  by code_simp

lemma attrValues_error: "attrValues xs = Inl e \<Longrightarrow> e = TypeError"
proof (induction xs arbitrary: e)
  case Nil
  then show ?case by simp
next
  case (Cons x xs)
  obtain el n where x: "x = (el, n)" by (cases x)
  show ?case
    using Cons.prems Cons.IH unfolding x
    by (auto simp: attrValue_def split: sum.splits option.splits)
qed

lemma triangle_error:
  "originalTriangle env vs = Inl e \<Longrightarrow> e = TypeError"
  "targetTriangle env vs = Inl e \<Longrightarrow> e = TypeError"
  by (auto simp: originalTriangle_def targetTriangle_def simp del: attrValues.simps
           split: sum.splits dest: attrValues_error)

text \<open>
  C2, amended. The conversion ends in an error, and so returns nothing, when the lookup
  of the \<open>GeoItem\<close>s fails or finds no metadata, when it finds a number of them other
  than three, when one of the three lacks an \<open>X\<close>, \<open>Y\<close>, \<open>Longitude\<close> or
  \<open>Latitude\<close> attribute, when one of the twelve values is not a number, and when the
  three source points are collinear. In every other case the calibration yields a matrix
  and the result of the conversion is that of the processing of the geometry with this
  matrix.
\<close>

theorem calibration_outcomes:
  "(\<forall>e. trangleVertices svg = Inl e \<longrightarrow> convertSVGToGeoJSON env svg opts = Inl e)
   \<and> (trangleVertices svg = Inr None \<longrightarrow> convertSVGToGeoJSON env svg opts = Inl (Exit 1))
   \<and> (\<forall>vs. trangleVertices svg = Inr (Some vs) \<and> length vs \<noteq> 3 \<longrightarrow>
          convertSVGToGeoJSON env svg opts = Inl (Exit 1))
   \<and> (\<forall>vs e. trangleVertices svg = Inr (Some vs) \<and> length vs = 3
          \<and> (originalTriangle env vs = Inl e \<or> targetTriangle env vs = Inl e) \<longrightarrow>
          convertSVGToGeoJSON env svg opts = Inl TypeError)
   \<and> (\<forall>vs t1 t2. trangleVertices svg = Inr (Some vs) \<and> length vs = 3
          \<and> originalTriangle env vs = Inr t1 \<and> targetTriangle env vs = Inr t2 \<longrightarrow>
          (if NaN \<in> set (t1 @ t2) \<or> triangleDet t1 = Num 0
           then convertSVGToGeoJSON env svg opts = Inl calibrationError
           else (\<exists>m. getConvertMatrix env vs = Inr m
                   \<and> convertSVGToGeoJSON env svg opts = processGeometry env opts svg m)))"
proof (intro conjI allI impI)
  fix e assume "trangleVertices svg = Inl e"
  then show "convertSVGToGeoJSON env svg opts = Inl e"
    by (simp add: convertSVGToGeoJSON_def)
next
  assume "trangleVertices svg = Inr None"
  then show "convertSVGToGeoJSON env svg opts = Inl (Exit 1)"
    by (simp add: convertSVGToGeoJSON_def)
next
  fix vs assume "trangleVertices svg = Inr (Some vs) \<and> length vs \<noteq> 3"
  then show "convertSVGToGeoJSON env svg opts = Inl (Exit 1)"
    by (simp add: convertSVGToGeoJSON_def)
next
  fix vs e
  assume a: "trangleVertices svg = Inr (Some vs) \<and> length vs = 3
             \<and> (originalTriangle env vs = Inl e \<or> targetTriangle env vs = Inl e)"
  then have "getConvertMatrix env vs = Inl TypeError"
    by (auto simp: getConvertMatrix_def split: sum.splits dest: triangle_error)
  then show "convertSVGToGeoJSON env svg opts = Inl TypeError"
    using a by (simp add: convertSVGToGeoJSON_def)
next
  fix vs t1 t2
  assume a: "trangleVertices svg = Inr (Some vs) \<and> length vs = 3
             \<and> originalTriangle env vs = Inr t1 \<and> targetTriangle env vs = Inr t2"
  then have g: "getConvertMatrix env vs = fromTriangles t1 t2"
    by (simp add: getConvertMatrix_def)
  have c: "convertSVGToGeoJSON env svg opts =
             (case fromTriangles t1 t2 of
                Inl e \<Rightarrow> Inl e
              | Inr m \<Rightarrow> processGeometry env opts svg m)"
    using a g by (simp add: convertSVGToGeoJSON_def)
  show "if NaN \<in> set (t1 @ t2) \<or> triangleDet t1 = Num 0
        then convertSVGToGeoJSON env svg opts = Inl calibrationError
        else (\<exists>m. getConvertMatrix env vs = Inr m
                \<and> convertSVGToGeoJSON env svg opts = processGeometry env opts svg m)"
  proof (cases "NaN \<in> set (t1 @ t2) \<or> triangleDet t1 = Num 0")
    case True
    then have "fromTriangles t1 t2 = Inl calibrationError"
      by (simp add: fromTriangles_def Let_def)
    then show ?thesis using True c by simp
  next
    case False
    then obtain m where "fromTriangles t1 t2 = Inr m"
      by (simp add: fromTriangles_def Let_def)
    then show ?thesis using False c g by simp
  qed
qed

theorem calibration_outcomes_witness:
  "convertSVGToGeoJSON exEnv exDocNoMeta \<lparr> layers = False, debug = False \<rparr> = Inl (Exit 1)
   \<and> convertSVGToGeoJSON exEnv exDocTwoItems \<lparr> layers = False, debug = False \<rparr> = Inl (Exit 1)
   \<and> convertSVGToGeoJSON exEnv exDocNoLatitude \<lparr> layers = False, debug = False \<rparr> = Inl TypeError
   \<and> convertSVGToGeoJSON exEnv exDocNotNumber \<lparr> layers = False, debug = False \<rparr>
       = Inl calibrationError
   \<and> convertSVGToGeoJSON exEnv exDocCollinear \<lparr> layers = False, debug = False \<rparr>
       = Inl calibrationError
   \<and> (\<exists>m. convertSVGToGeoJSON exEnv exDocPolyline \<lparr> layers = False, debug = False \<rparr>
            = processGeometry exEnv \<lparr> layers = False, debug = False \<rparr> exDocPolyline m)"
proof -
  let ?o = "\<lparr> layers = False, debug = False \<rparr>"
  let ?two = "[exGeoItem ''0'' ''0'' ''0'' ''0'', exGeoItem ''100'' ''0'' ''1'' ''0'']"
  let ?nolat = "[exGeoItem ''0'' ''0'' ''0'' ''0'', exGeoItem ''100'' ''0'' ''1'' ''0'',
                 Element ''GeoItem'' (Some (''http://www.prognoz.ru'', ''GeoItem''))
                   (Some [(''X'', ''0''), (''Y'', ''100''), (''Longitude'', ''0'')]) None]"
  let ?nan = "[exGeoItem ''abc'' ''0'' ''0'' ''0'', exGeoItem ''100'' ''0'' ''1'' ''0'',
               exGeoItem ''0'' ''100'' ''0'' ''1'']"
  let ?col = "[exGeoItem ''0'' ''0'' ''0'' ''0'', exGeoItem ''50'' ''50'' ''1'' ''0'',
               exGeoItem ''100'' ''100'' ''0'' ''1'']"
  let ?ok = "[exGeoItem ''0'' ''0'' ''0'' ''0'', exGeoItem ''100'' ''0'' ''1'' ''0'',
              exGeoItem ''0'' ''100'' ''0'' ''1'']"
  have a: "trangleVertices exDocNoMeta = Inr None" by code_simp
  have b: "trangleVertices exDocTwoItems = Inr (Some ?two) \<and> length ?two \<noteq> 3" by code_simp
  have l: "trangleVertices exDocNoLatitude = Inr (Some ?nolat) \<and> length ?nolat = 3
           \<and> (originalTriangle exEnv ?nolat = Inl TypeError
               \<or> targetTriangle exEnv ?nolat = Inl TypeError)"
    by code_simp
  have n: "trangleVertices exDocNotNumber = Inr (Some ?nan) \<and> length ?nan = 3
           \<and> originalTriangle exEnv ?nan = Inr [NaN, Num 0, Num 100, Num 0, Num 0, Num 100]
           \<and> targetTriangle exEnv ?nan = Inr [Num 0, Num 0, Num 1, Num 0, Num 0, Num 1]"
    by code_simp
  have n': "NaN \<in> set ([NaN, Num 0, Num 100, Num 0, Num 0, Num 100]
                         @ [Num 0, Num 0, Num 1, Num 0, Num 0, Num 1])
            \<or> triangleDet [NaN, Num 0, Num 100, Num 0, Num 0, Num 100] = Num 0"
    by simp
  have c: "trangleVertices exDocCollinear = Inr (Some ?col) \<and> length ?col = 3
           \<and> originalTriangle exEnv ?col = Inr [Num 0, Num 0, Num 50, Num 50, Num 100, Num 100]
           \<and> targetTriangle exEnv ?col = Inr [Num 0, Num 0, Num 1, Num 0, Num 0, Num 1]"
    by code_simp
  have c': "NaN \<in> set ([Num 0, Num 0, Num 50, Num 50, Num 100, Num 100]
                         @ [Num 0, Num 0, Num 1, Num 0, Num 0, Num 1])
            \<or> triangleDet [Num 0, Num 0, Num 50, Num 50, Num 100, Num 100] = Num 0"
    by code_simp
  have d: "trangleVertices exDocPolyline = Inr (Some ?ok) \<and> length ?ok = 3
           \<and> originalTriangle exEnv ?ok = Inr [Num 0, Num 0, Num 100, Num 0, Num 0, Num 100]
           \<and> targetTriangle exEnv ?ok = Inr [Num 0, Num 0, Num 1, Num 0, Num 0, Num 1]"
    by code_simp
  have d': "\<not> (NaN \<in> set ([Num 0, Num 0, Num 100, Num 0, Num 0, Num 100]
                         @ [Num 0, Num 0, Num 1, Num 0, Num 0, Num 1])
            \<or> triangleDet [Num 0, Num 0, Num 100, Num 0, Num 0, Num 100] = Num 0)"
    by code_simp
  note g1 = calibration_outcomes [of exDocNoMeta exEnv ?o, THEN conjunct2, THEN conjunct1, rule_format]
  have 1: "convertSVGToGeoJSON exEnv exDocNoMeta ?o = Inl (Exit 1)"
    by (rule g1 [OF a])
  note g2 = calibration_outcomes [of exDocTwoItems exEnv ?o, THEN conjunct2, THEN conjunct2,
                                  THEN conjunct1, rule_format]
  have 2: "convertSVGToGeoJSON exEnv exDocTwoItems ?o = Inl (Exit 1)"
    by (rule g2 [OF b])
  note g3 = calibration_outcomes [of exDocNoLatitude exEnv ?o, THEN conjunct2, THEN conjunct2,
                                  THEN conjunct2, THEN conjunct1, rule_format]
  have 3: "convertSVGToGeoJSON exEnv exDocNoLatitude ?o = Inl TypeError"
    by (rule g3 [OF l])
  note g4 = calibration_outcomes [of exDocNotNumber exEnv ?o, THEN conjunct2, THEN conjunct2,
                                  THEN conjunct2, THEN conjunct2, rule_format, OF n]
  have 4: "convertSVGToGeoJSON exEnv exDocNotNumber ?o = Inl calibrationError"
    using g4 n' by (simp only: if_True)
  note g5 = calibration_outcomes [of exDocCollinear exEnv ?o, THEN conjunct2, THEN conjunct2,
                                  THEN conjunct2, THEN conjunct2, rule_format, OF c]
  have 5: "convertSVGToGeoJSON exEnv exDocCollinear ?o = Inl calibrationError"
    using g5 c' by (simp only: if_True)
  note g6 = calibration_outcomes [of exDocPolyline exEnv ?o, THEN conjunct2, THEN conjunct2,
                                  THEN conjunct2, THEN conjunct2, rule_format, OF d]
  have 6: "\<exists>m. convertSVGToGeoJSON exEnv exDocPolyline ?o = processGeometry exEnv ?o exDocPolyline m"
    using g6 d' by (simp only: if_False) blast
  from 1 2 3 4 5 6 show ?thesis by blast
qed

subsection \<open>Further facts about the same functions\<close>

text \<open>
  A polygon or polyline whose element has attributes, none of them \<open>points\<close>, is
  skipped: the guard \<open>if (!c.points) return\<close>.
\<close>

lemma polygon_absent_points_skipped:
  assumes "elAttrs el = Some as" and "map_of as ''points'' = None"
  shows "addPolygonToLayer env el layer xform = Inr layer"
    and "addPolylineToLayer env el layer xform = Inr layer"
  using assms by (simp_all add: addPolygonToLayer_def addPolylineToLayer_def attrs_def)

text \<open>In debug mode no feature has a defined \<open>svgID\<close>, whatever the geometry.\<close>

lemma toFeature_svgID_undefined:
  "debug opts \<Longrightarrow> properties (toFeature opts m g) = Some [(''svgID'', None)]"
  by (simp add: toFeature_def)

text \<open>
  An element without a local matrix passes the accumulated transform on and leaves the
  store alone.
\<close>

lemma combineTransform_no_local:
  "localMatrix env el = None \<Longrightarrow> combineTransform env el xform h = (xform, h)"
  by (simp add: combineTransform_def)

end
